theory Spec2Isabelle
  imports Main "HOL-Library.Sublist"
begin

section \<open>JavaScript values\<close>

text \<open>
  A JavaScript string is modelled by the bytes of its UTF-8 encoding, so an ASCII
  character is one \<open>char\<close> and any other character is two to four. The handlers never
  count or index characters; they compare strings, search one in another, trim and
  lower-case them.

  A module-level variable that holds a string or \<open>null\<close> is a \<open>string option\<close>. It is truthy
  when it is a non-empty string; \<open>v || ''\<close> is \<open>or_empty v\<close>.

  \<open>String.prototype.toLowerCase\<close> belongs to the JavaScript engine, not to the repository.
  It is the parameter \<open>lower\<close> of every function that calls it, and what is proved of such
  a function is proved for every engine.
\<close>

definition truthy :: "string option \<Rightarrow> bool" where
  "truthy v = (case v of None \<Rightarrow> False | Some x \<Rightarrow> x \<noteq> [])"

definition or_empty :: "string option \<Rightarrow> string" where
  "or_empty v = (case v of None \<Rightarrow> [] | Some x \<Rightarrow> x)"

definition js_or :: "string option \<Rightarrow> string option \<Rightarrow> string option" where
  "js_or a b = (if truthy a then a else b)"

text \<open>\<open>x.includes(t)\<close> is \<open>js_includes x t\<close>: \<open>t\<close> occurs in \<open>x\<close> as a contiguous block. (On
  well-formed encodings a block of bytes that is the encoding of \<open>t\<close> starts and ends at
  character boundaries, so this is the search on the characters.)\<close>

fun js_includes :: "string \<Rightarrow> string \<Rightarrow> bool" where
  "js_includes [] t = (t = [])"
| "js_includes (c # cs) t = (prefix t (c # cs) \<or> js_includes cs t)"

text \<open>
  \<open>String.prototype.trim\<close> removes white space and line terminators from both ends: the
  characters U+0009 to U+000D, U+0020, U+00A0, U+1680, U+2000 to U+200A, U+2028, U+2029,
  U+202F, U+205F, U+3000 and U+FEFF, here in their encodings.
\<close>

definition white_space :: "string list" where
  "white_space =
     [[CHR 0x09], [CHR 0x0A], [CHR 0x0B], [CHR 0x0C], [CHR 0x0D], [CHR 0x20],
      [CHR 0xC2, CHR 0xA0],
      [CHR 0xE1, CHR 0x9A, CHR 0x80],
      [CHR 0xE2, CHR 0x80, CHR 0x80], [CHR 0xE2, CHR 0x80, CHR 0x81],
      [CHR 0xE2, CHR 0x80, CHR 0x82], [CHR 0xE2, CHR 0x80, CHR 0x83],
      [CHR 0xE2, CHR 0x80, CHR 0x84], [CHR 0xE2, CHR 0x80, CHR 0x85],
      [CHR 0xE2, CHR 0x80, CHR 0x86], [CHR 0xE2, CHR 0x80, CHR 0x87],
      [CHR 0xE2, CHR 0x80, CHR 0x88], [CHR 0xE2, CHR 0x80, CHR 0x89],
      [CHR 0xE2, CHR 0x80, CHR 0x8A],
      [CHR 0xE2, CHR 0x80, CHR 0xA8], [CHR 0xE2, CHR 0x80, CHR 0xA9],
      [CHR 0xE2, CHR 0x80, CHR 0xAF],
      [CHR 0xE2, CHR 0x81, CHR 0x9F],
      [CHR 0xE3, CHR 0x80, CHR 0x80],
      [CHR 0xEF, CHR 0xBB, CHR 0xBF]]"

text \<open>\<open>strip ws x\<close> removes from the front of \<open>x\<close> every leading block that is in \<open>ws\<close>.\<close>

function strip :: "string list \<Rightarrow> string \<Rightarrow> string" where
  "strip ws x =
     (case find (\<lambda>w. w \<noteq> [] \<and> prefix w x) ws of
        None \<Rightarrow> x
      | Some w \<Rightarrow> strip ws (drop (length w) x))"
  by pat_completeness auto
termination
proof (relation "measure (\<lambda>(ws, x). length x)")
  show "wf (measure (\<lambda>(ws, x). length x))" by simp
next
  fix ws :: "string list" and x w :: string
  assume "find (\<lambda>w. w \<noteq> [] \<and> prefix w x) ws = Some w"
  then have "w \<noteq> []" and "prefix w x"
    by (auto simp add: find_Some_iff)
  then have "x \<noteq> []" and "0 < length w"
    by auto
  then show "((ws, drop (length w) x), (ws, x)) \<in> measure (\<lambda>(ws, x). length x)"
    by simp
qed

definition js_trim :: "string \<Rightarrow> string" where
  "js_trim x = rev (strip (map rev white_space) (rev (strip white_space x)))"

datatype js_error = JsError (err_code: string) (message: string)

datatype settled = Fulfilled | Rejected js_error

text \<open>A value stored in a document field: a string, a number, a boolean, \<open>null\<close> or a
  timestamp. (Maps and arrays are left out; no handler could tell one from a
  timestamp.)\<close>

datatype jsval = JStr string | JNum int | JBool bool | JNull | JTimestamp nat

section \<open>The application state (app.js, ui.js)\<close>

text \<open>
  The data of a document of the notes collection. The four fields the application
  writes (\<open>createNewNote\<close>, the autosave callback) have the types it writes them with; one
  that is absent is \<open>None\<close>. The handlers read a title, a content and a timestamp with the
  operations of these types. \<open>other_fields\<close> holds every field with another name,
  whatever its value; the name \<open>id\<close> may be among them. The handlers read \<open>id\<close> only to
  compare it with \<open>===\<close>, which takes any value, and no other of these fields.

  The snapshot handler builds a cache entry \<open>{id: doc.id, ...doc.data()}\<close> from each
  document: an object with the property \<open>id\<close> and, spread over it, every field of the
  data, so that a data field named \<open>id\<close> takes the place of the document's id. A cache
  entry has the same shape as the data, the property \<open>id\<close> being among its
  \<open>other_fields\<close>; \<open>note_id\<close> reads it (\<open>None\<close> is \<open>undefined\<close>).
\<close>

record note_fields =
  title :: "string option"
  content :: "string option"
  updatedAt :: "nat option"
  userId :: "string option"
  other_fields :: "string \<rightharpoonup> jsval"

type_synonym note_t = note_fields

record doc_snapshot =
  doc_id :: string
  doc_data :: note_fields

definition note_of_doc :: "doc_snapshot \<Rightarrow> note_t" where
  "note_of_doc d =
     (doc_data d)\<lparr>other_fields := [''id'' \<mapsto> JStr (doc_id d)] ++ other_fields (doc_data d)\<rparr>"

definition note_id :: "note_t \<Rightarrow> jsval option" where
  "note_id n = other_fields n ''id''"

text \<open>A module-level variable that holds a string or \<open>null\<close>, as a value to compare with
  \<open>===\<close>.\<close>

definition js_of_variable :: "string option \<Rightarrow> jsval" where
  "js_of_variable v = (case v of None \<Rightarrow> JNull | Some x \<Rightarrow> JStr x)"

record user =
  uid :: string
  email :: "string option"

datatype view_name = ViewLogin | ViewRegister | ViewDashboard | ViewEditor

fun view_str :: "view_name \<Rightarrow> string" where
  "view_str ViewLogin = ''login''"
| "view_str ViewRegister = ''register''"
| "view_str ViewDashboard = ''dashboard''"
| "view_str ViewEditor = ''editor''"

datatype save_status = Saving | Saved | SaveError

fun status_text :: "save_status \<Rightarrow> string" where
  "status_text Saving = ''Saving...''"
| "status_text Saved = ''All changes saved''"
| "status_text SaveError = ''Error saving''"

text \<open>Write calls issued to the remote store: \<open>updateDoc\<close> and \<open>deleteDoc\<close> on the document
  \<open>users/uid/notes/id\<close>. An update always asks for a fresh server timestamp.\<close>

datatype remote_call =
  UpdateDoc string string string string
| DeleteDoc string string

datatype log_entry = LogError string "js_error option"

text \<open>
  The module-level variables of app.js, \<open>UI.isEditMode\<close>, the page elements the handlers
  read or switch, and the environment the handlers act on. A page element looked up by
  \<open>getElementById\<close> is an option: \<open>None\<close> when the page has no such element, so that every
  \<open>if (el)\<close> guard of the source is a case of the model. For a view container and for the
  delete modal the value is the element's \<open>hidden\<close> flag. Element contents that no handler
  reads back (the last-edited line, the mode indicator, the preview pane, the e-mail
  display, the empty-state message, the mouse cursor) are left out. \<open>timers\<close> holds the
  handles of the autosave timeouts that are scheduled and have neither fired nor been
  cleared; \<open>listeners\<close> the identities for which a snapshot subscription was opened (the
  source keeps no handle to close one); \<open>calls\<close> the write calls issued so far.

  The handlers modelled are the ones that read or write the cache, the open note, the
  pending deletion and the autosave timeout. Of the others, \<open>createNewNote\<close> ends in
  \<open>openNote\<close>, \<open>applyAIResult\<close> changes the content field and ends in \<open>handleInput\<close>, and the
  search shortcut ends in \<open>showDashboard\<close>. A note id that a handler receives as its
  argument is a string.
\<close>

record app_state =
  currentUser :: "user option"
  currentNoteId :: "string option"
  noteToDeleteId :: "string option"
  notesData :: "note_t list"
  searchTerm :: string
  autosaveTimeout :: "nat option"
  isEditMode :: bool
  views :: "view_name \<Rightarrow> bool option"
  note_title :: "string option"
  note_content :: "string option"
  modal_delete :: "bool option"
  notes_grid :: "note_t list option"
  empty_state :: "bool option"
  sidebar_notes_list :: "(note_t \<times> bool) list option"
  save_status_el :: "string option"
  timers :: "nat list"
  timer_counter :: nat
  listeners :: "string list"
  calls :: "remote_call list"
  console :: "log_entry list"

subsection \<open>ui.js\<close>

definition showView :: "view_name \<Rightarrow> app_state \<Rightarrow> app_state" where
  "showView viewName s =
     (let all_hidden = (\<lambda>v. map_option (\<lambda>_. True) (views s v)) in
      case views s viewName of
        Some _ \<Rightarrow> s\<lparr>views := all_hidden(viewName := Some False)\<rparr>
      | None \<Rightarrow>
          s\<lparr>views := all_hidden,
            console := console s @
              [LogError (''View '' @ [CHR 0x22] @ view_str viewName @ [CHR 0x22] @ '' not found.'')
                 None]\<rparr>)"

definition updateSaveStatus :: "save_status \<Rightarrow> app_state \<Rightarrow> app_state" where
  "updateSaveStatus st s =
     s\<lparr>save_status_el := map_option (\<lambda>_. status_text st) (save_status_el s)\<rparr>"

subsection \<open>app.js: views and rendering\<close>

definition showDashboard :: "app_state \<Rightarrow> app_state" where
  "showDashboard s = showView ViewDashboard (s\<lparr>currentNoteId := None\<rparr>)"

definition note_matches :: "(string \<Rightarrow> string) \<Rightarrow> string \<Rightarrow> note_t \<Rightarrow> bool" where
  "note_matches lower search n =
     (let t = lower search;
          ti = lower (or_empty (title n));
          co = lower (or_empty (content n))
      in js_includes ti t \<or> js_includes co t)"

definition filteredNotes :: "(string \<Rightarrow> string) \<Rightarrow> string \<Rightarrow> note_t list \<Rightarrow> note_t list" where
  "filteredNotes lower search cache = filter (note_matches lower search) cache"

definition renderDashboard :: "(string \<Rightarrow> string) \<Rightarrow> app_state \<Rightarrow> app_state" where
  "renderDashboard lower s =
     (case notes_grid s of
        None \<Rightarrow> s
      | Some _ \<Rightarrow>
          (let shown = filteredNotes lower (searchTerm s) (notesData s) in
           if shown = []
           then s\<lparr>notes_grid := Some [],
                  empty_state := map_option (\<lambda>_. False) (empty_state s)\<rparr>
           else s\<lparr>notes_grid := Some shown,
                  empty_state := map_option (\<lambda>_. True) (empty_state s)\<rparr>))"

definition renderSidebar :: "app_state \<Rightarrow> app_state" where
  "renderSidebar s =
     (case sidebar_notes_list s of
        None \<Rightarrow> s
      | Some _ \<Rightarrow>
          s\<lparr>sidebar_notes_list :=
              Some (map (\<lambda>n. (n, note_id n = Some (js_of_variable (currentNoteId s))))
                      (notesData s))\<rparr>)"

definition openNote :: "string \<Rightarrow> app_state \<Rightarrow> app_state" where
  "openNote noteId s =
     (let s1 = s\<lparr>currentNoteId := Some noteId\<rparr> in
      case find (\<lambda>n. note_id n = Some (JStr noteId)) (notesData s1) of
        None \<Rightarrow> showDashboard s1
      | Some n \<Rightarrow>
          renderSidebar (showView ViewEditor
            (s1\<lparr>note_title := map_option (\<lambda>_. or_empty (title n)) (note_title s1),
                note_content := map_option (\<lambda>_. or_empty (content n)) (note_content s1),
                isEditMode := True\<rparr>)))"

definition searchInput :: "(string \<Rightarrow> string) \<Rightarrow> string \<Rightarrow> app_state \<Rightarrow> app_state" where
  "searchInput lower v s = renderDashboard lower (s\<lparr>searchTerm := v\<rparr>)"

subsection \<open>app.js: deletion\<close>

definition requestDelete :: "string \<Rightarrow> app_state \<Rightarrow> app_state" where
  "requestDelete noteId s =
     (if noteId = [] then s
      else s\<lparr>noteToDeleteId := Some noteId,
             modal_delete := map_option (\<lambda>_. False) (modal_delete s)\<rparr>)"

definition closeModal :: "app_state \<Rightarrow> app_state" where
  "closeModal s =
     s\<lparr>noteToDeleteId := None, modal_delete := map_option (\<lambda>_. True) (modal_delete s)\<rparr>"

text \<open>
  \<open>confirmDelete\<close> is asynchronous, and other handlers may run while its \<open>deleteDoc\<close> call
  is in flight. \<open>confirmDelete_begin\<close> is the part that runs at once: the guard, and the
  call; it is \<open>None\<close> when the guard returns. \<open>confirmDelete_resume\<close> is the part after
  \<open>await\<close>: it runs when the call settles, on the state as it is then, and reads
  \<open>currentNoteId\<close> and \<open>noteToDeleteId\<close> there. In an execution the two are the events
  \<open>ConfirmDeleteBegin\<close> and \<open>ConfirmDeleteSettled\<close> below, with any events between them.
  \<open>confirmDelete\<close> is only the schedule in which the call settles before any other handler
  runs.
\<close>

definition confirmDelete_begin :: "app_state \<Rightarrow> app_state option" where
  "confirmDelete_begin s =
     (case (noteToDeleteId s, currentUser s) of
        (Some d, Some u) \<Rightarrow>
          if d = [] then None
          else Some (s\<lparr>calls := calls s @ [DeleteDoc (uid u) d]\<rparr>)
      | _ \<Rightarrow> None)"

definition confirmDelete_resume :: "settled \<Rightarrow> app_state \<Rightarrow> app_state" where
  "confirmDelete_resume r s =
     (case r of
        Fulfilled \<Rightarrow>
          closeModal (if currentNoteId s = noteToDeleteId s then showDashboard s else s)
      | Rejected e \<Rightarrow> s\<lparr>console := console s @ [LogError ''Error deleting note:'' (Some e)]\<rparr>)"

definition confirmDelete :: "settled \<Rightarrow> app_state \<Rightarrow> app_state" where
  "confirmDelete r s =
     (case confirmDelete_begin s of None \<Rightarrow> s | Some s1 \<Rightarrow> confirmDelete_resume r s1)"

subsection \<open>app.js: debounced autosave\<close>

text \<open>
  \<open>setTimeout\<close> hands out positive handles, each one new. \<open>handleInput\<close> clears the timeout
  whose handle \<open>autosaveTimeout\<close> holds and schedules a new one. The timeout's callback
  reads \<open>currentUser\<close>, \<open>currentNoteId\<close> and the two editor fields when it runs.
\<close>

definition clearTimeout :: "nat \<Rightarrow> app_state \<Rightarrow> app_state" where
  "clearTimeout h s = s\<lparr>timers := removeAll h (timers s)\<rparr>"

definition handleInput :: "app_state \<Rightarrow> app_state" where
  "handleInput s =
     (let s1 = updateSaveStatus Saving s;
          s2 = (case autosaveTimeout s1 of
                  None \<Rightarrow> s1
                | Some h \<Rightarrow> if h \<noteq> 0 then clearTimeout h s1 else s1);
          h' = Suc (timer_counter s2)
      in s2\<lparr>autosaveTimeout := Some h', timers := timers s2 @ [h'], timer_counter := h'\<rparr>)"

definition autosave_callback :: "app_state \<Rightarrow> app_state" where
  "autosave_callback s =
     (case currentUser s of
        None \<Rightarrow> s
      | Some u \<Rightarrow>
          (case currentNoteId s of
             None \<Rightarrow> s
           | Some n \<Rightarrow>
               if n = [] then s
               else s\<lparr>calls := calls s @
                        [UpdateDoc (uid u) n (or_empty (note_title s)) (or_empty (note_content s))]\<rparr>))"

definition autosave_settled :: "settled \<Rightarrow> app_state \<Rightarrow> app_state" where
  "autosave_settled r s =
     (case r of
        Fulfilled \<Rightarrow> updateSaveStatus Saved s
      | Rejected e \<Rightarrow>
          updateSaveStatus SaveError
            (s\<lparr>console := console s @ [LogError ''Error saving:'' (Some e)]\<rparr>))"

definition timerFire :: "nat \<Rightarrow> app_state \<Rightarrow> app_state" where
  "timerFire h s =
     (if h \<in> set (timers s) then autosave_callback (s\<lparr>timers := removeAll h (timers s)\<rparr>)
      else s)"

text \<open>An \<open>input\<close> event on an editor field: the browser has stored the new value in the
  element, then the listener \<open>app.handleInput\<close> runs. A page without the element has no
  such event.\<close>

datatype editor_field = FieldTitle | FieldContent

definition inputEvent :: "editor_field \<Rightarrow> string \<Rightarrow> app_state \<Rightarrow> app_state" where
  "inputEvent f v s =
     (case f of
        FieldTitle \<Rightarrow>
          (case note_title s of None \<Rightarrow> s | Some _ \<Rightarrow> handleInput (s\<lparr>note_title := Some v\<rparr>))
      | FieldContent \<Rightarrow>
          (case note_content s of None \<Rightarrow> s
           | Some _ \<Rightarrow> handleInput (s\<lparr>note_content := Some v\<rparr>)))"

subsection \<open>app.js: the authentication observer and the snapshot subscription\<close>

definition onSnapshot_next ::
  "(string \<Rightarrow> string) \<Rightarrow> doc_snapshot list \<Rightarrow> app_state \<Rightarrow> app_state" where
  "onSnapshot_next lower docs s =
     renderSidebar (renderDashboard lower (s\<lparr>notesData := map note_of_doc docs\<rparr>))"

definition onSnapshot_error :: "js_error \<Rightarrow> app_state \<Rightarrow> app_state" where
  "onSnapshot_error e s =
     s\<lparr>console := console s @ [LogError ''Firestore Listen Error:'' (Some e)]\<rparr>"

definition onAuthStateChanged :: "user option \<Rightarrow> app_state \<Rightarrow> app_state" where
  "onAuthStateChanged usr s =
     (let s1 = s\<lparr>currentUser := usr\<rparr> in
      case usr of
        Some u \<Rightarrow> (let s2 = showView ViewDashboard s1 in s2\<lparr>listeners := listeners s2 @ [uid u]\<rparr>)
      | None \<Rightarrow> (showView ViewLogin s1)\<lparr>notesData := []\<rparr>)"

subsection \<open>Executions\<close>

text \<open>
  The handlers run one at a time on the event loop. An execution is a list of events,
  each one running one handler, or one half of an asynchronous one, to its end; the
  halves of an asynchronous handler are events of their own, so that other handlers can
  run between them.
\<close>

datatype event =
  AuthChanged "user option"
| SnapshotNext "doc_snapshot list"
| SnapshotError js_error
| OpenNote string
| ShowDashboard
| SearchInput string
| RequestDelete string
| CloseModal
| ConfirmDeleteBegin
| ConfirmDeleteSettled settled
| Input editor_field string
| TimerFire nat
| AutosaveSettled settled

fun step :: "(string \<Rightarrow> string) \<Rightarrow> event \<Rightarrow> app_state \<Rightarrow> app_state" where
  "step lower (AuthChanged usr) s = onAuthStateChanged usr s"
| "step lower (SnapshotNext docs) s = onSnapshot_next lower docs s"
| "step lower (SnapshotError e) s = onSnapshot_error e s"
| "step lower (OpenNote noteId) s = openNote noteId s"
| "step lower ShowDashboard s = showDashboard s"
| "step lower (SearchInput v) s = searchInput lower v s"
| "step lower (RequestDelete noteId) s = requestDelete noteId s"
| "step lower CloseModal s = closeModal s"
| "step lower ConfirmDeleteBegin s =
     (case confirmDelete_begin s of None \<Rightarrow> s | Some s1 \<Rightarrow> s1)"
| "step lower (ConfirmDeleteSettled r) s = confirmDelete_resume r s"
| "step lower (Input f v) s = inputEvent f v s"
| "step lower (TimerFire h) s = timerFire h s"
| "step lower (AutosaveSettled r) s = autosave_settled r s"

definition run :: "(string \<Rightarrow> string) \<Rightarrow> event list \<Rightarrow> app_state \<Rightarrow> app_state" where
  "run lower evs s = fold (step lower) evs s"

text \<open>The state when the script has loaded, on a page that has every element the
  handlers look up: nobody signed in, no note open, an empty cache, no timeout scheduled,
  every view hidden.\<close>

definition initial_state :: app_state where
  "initial_state =
     \<lparr>currentUser = None, currentNoteId = None, noteToDeleteId = None, notesData = [],
      searchTerm = [], autosaveTimeout = None, isEditMode = True,
      views = (\<lambda>_. Some True), note_title = Some [], note_content = Some [],
      modal_delete = Some True, notes_grid = Some [], empty_state = Some True,
      sidebar_notes_list = Some [], save_status_el = Some [],
      timers = [], timer_counter = 0, listeners = [], calls = [], console = []\<rparr>"

text \<open>At most one autosave timeout is pending, and it is the one \<open>autosaveTimeout\<close> names.\<close>

definition timer_inv :: "app_state \<Rightarrow> bool" where
  "timer_inv s =
     (case autosaveTimeout s of
        None \<Rightarrow> timers s = []
      | Some h \<Rightarrow> 0 < h \<and> h \<le> timer_counter s \<and> (timers s = [] \<or> timers s = [h]))"

section \<open>The generation service (gemini.js)\<close>

text \<open>
  The client library is outside the repository. Its constructor is the parameter \<open>ctor\<close>
  (it may throw), and a request to one model with one prompt is the parameter \<open>api\<close>. The
  body of the \<open>try\<close> block has three outcomes: the request fails before a response is
  there; the response is there, which the source logs as a success, and reading its text
  throws; the response is there and its text is returned. \<open>stored_key\<close> is the entry
  \<open>gemini_api_key\<close> of the browser's local storage.
\<close>

datatype client = GoogleGenerativeAI string

datatype model_outcome = RequestFailed js_error | TextFailed js_error | Answered string

text \<open>What the body of the \<open>try\<close> block yields: the error it throws or the text it
  returns.\<close>

fun outcome_result :: "model_outcome \<Rightarrow> js_error + string" where
  "outcome_result (RequestFailed e) = Inl e"
| "outcome_result (TextFailed e) = Inl e"
| "outcome_result (Answered t) = Inr t"

datatype gemini_log = GeminiError string js_error | GeminiSuccess string

record gemini_service =
  apiKey :: "string option"
  genAI :: "client option"
  stored_key :: "string option"
  gemini_console :: "gemini_log list"

definition gemini_initial :: gemini_service where
  "gemini_initial =
     \<lparr>apiKey = Some ''Your API Key'', genAI = None, stored_key = None, gemini_console = []\<rparr>"

definition initialize ::
  "(string \<Rightarrow> js_error + client) \<Rightarrow> string option \<Rightarrow> gemini_service \<Rightarrow> gemini_service" where
  "initialize ctor key g =
     (case js_or (js_or key (apiKey g)) (stored_key g) of
        None \<Rightarrow> g
      | Some finalKey \<Rightarrow>
          if finalKey = [] then g
          else
            (let k = js_trim finalKey;
                 g1 = g\<lparr>apiKey := Some k, stored_key := Some k\<rparr>
             in case ctor k of
                  Inr c \<Rightarrow> g1\<lparr>genAI := Some c\<rparr>
                | Inl e \<Rightarrow>
                    g1\<lparr>genAI := None,
                       gemini_console := gemini_console g1 @
                         [GeminiError ''Failed to initialize Gemini Client:'' e]\<rparr>))"

definition setApiKey ::
  "(string \<Rightarrow> js_error + client) \<Rightarrow> string option \<Rightarrow> gemini_service \<Rightarrow> gemini_service" where
  "setApiKey ctor key g = initialize ctor key g"

definition getApiKey :: "gemini_service \<Rightarrow> string option \<times> gemini_service" where
  "getApiKey g =
     (let g1 = (if truthy (apiKey g) then g else g\<lparr>apiKey := stored_key g\<rparr>)
      in (apiKey g1, g1))"

definition modelsToTry :: "string list" where
  "modelsToTry = [''gemini-2.5-flash'', ''gemini-2.5-flash-001'']"

definition success_line :: "string \<Rightarrow> gemini_log" where
  "success_line modelName = GeminiSuccess (''%c Gemini Success! Using model: '' @ modelName)"

text \<open>The loop over the model names: \<open>lastError\<close> is the error of the latest failed
  attempt, \<open>tried\<close> the names requested so far, in order, \<open>lg\<close> the lines logged so far.\<close>

fun try_models ::
  "(string \<Rightarrow> model_outcome) \<Rightarrow> string list \<Rightarrow> js_error option \<Rightarrow> string list
     \<Rightarrow> gemini_log list \<Rightarrow> (js_error + string) \<times> string list \<times> gemini_log list" where
  "try_models call [] lastError tried lg =
     (Inl (JsError []
        (''All models failed. Last error: '' @
           (case lastError of Some e \<Rightarrow> message e | None \<Rightarrow> ''Unknown error''))),
      tried, lg)"
| "try_models call (modelName # rest) lastError tried lg =
     (case call modelName of
        RequestFailed e \<Rightarrow> try_models call rest (Some e) (tried @ [modelName]) lg
      | TextFailed e \<Rightarrow>
          try_models call rest (Some e) (tried @ [modelName]) (lg @ [success_line modelName])
      | Answered t \<Rightarrow> (Inr t, tried @ [modelName], lg @ [success_line modelName]))"

text \<open>\<open>generateContent\<close> returns the text or the error thrown, the model names it
  requested, and the service object as it leaves it.\<close>

definition generateContent ::
  "(string \<Rightarrow> js_error + client) \<Rightarrow> (client \<Rightarrow> string \<Rightarrow> string \<Rightarrow> model_outcome)
     \<Rightarrow> string \<Rightarrow> gemini_service \<Rightarrow> (js_error + string) \<times> string list \<times> gemini_service" where
  "generateContent ctor api prompt g =
     (let g1 = initialize ctor None g in
      case genAI g1 of
        None \<Rightarrow>
          (Inl (JsError [] ''Gemini Client not initialized. Please check your API Key.''),
           [], g1)
      | Some c \<Rightarrow>
          (case try_models (\<lambda>m. api c m prompt) modelsToTry None [] [] of
             (r, tried, lg) \<Rightarrow> (r, tried, g1\<lparr>gemini_console := gemini_console g1 @ lg\<rparr>)))"

section \<open>Notions of the specification\<close>

text \<open>
  This definition follows the words of the specification, not the source: a subscription
  error is fatal when it is "an auth-scoped permission failure", which the remote store
  reports under the codes \<open>permission-denied\<close> and \<open>unauthenticated\<close>.
\<close>

definition spec_fatal :: "js_error \<Rightarrow> bool" where
  "spec_fatal e = (err_code e = ''permission-denied'' \<or> err_code e = ''unauthenticated'')"

section \<open>Example inputs\<close>

text \<open>
  An engine for the examples. \<open>lower_sigma\<close> is \<open>String.prototype.toLowerCase\<close> on text made
  of ASCII letters, digits, spaces and commas and of the Greek capital letter sigma
  (U+03A3, encoded CE A3): an ASCII capital becomes the small letter, and a capital sigma
  becomes the final small sigma (U+03C2, encoded CF 82) when a letter stands before it
  and none after it, and the small sigma (U+03C3, encoded CF 83) otherwise, as the
  Unicode rule for the final sigma, which the language standard adopts, prescribes.
\<close>

definition lower_char :: "char \<Rightarrow> char" where
  "lower_char c =
     (case map_of (zip ''ABCDEFGHIJKLMNOPQRSTUVWXYZ'' ''abcdefghijklmnopqrstuvwxyz'') c of
        Some d \<Rightarrow> d
      | None \<Rightarrow> c)"

definition ascii_letter :: "char \<Rightarrow> bool" where
  "ascii_letter c =
     (c \<in> set ''ABCDEFGHIJKLMNOPQRSTUVWXYZabcdefghijklmnopqrstuvwxyz'')"

definition letter_ahead :: "string \<Rightarrow> bool" where
  "letter_ahead cs = (case cs of [] \<Rightarrow> False | c # _ \<Rightarrow> ascii_letter c \<or> c = CHR 0xCE)"

fun lower_sigma_from :: "bool \<Rightarrow> string \<Rightarrow> string" where
  "lower_sigma_from letter_before (c # d # cs) =
     (if c = CHR 0xCE \<and> d = CHR 0xA3
      then (if letter_before \<and> \<not> letter_ahead cs then [CHR 0xCF, CHR 0x82]
            else [CHR 0xCF, CHR 0x83]) @ lower_sigma_from True cs
      else lower_char c # lower_sigma_from (ascii_letter c) (d # cs))"
| "lower_sigma_from letter_before [c] = [lower_char c]"
| "lower_sigma_from letter_before [] = []"

definition lower_sigma :: "string \<Rightarrow> string" where
  "lower_sigma x = lower_sigma_from False x"

definition capital_sigma :: string where
  "capital_sigma = [CHR 0xCE, CHR 0xA3]"

definition small_sigma :: string where
  "small_sigma = [CHR 0xCF, CHR 0x83]"

definition final_sigma :: string where
  "final_sigma = [CHR 0xCF, CHR 0x82]"

definition doc_a :: doc_snapshot where
  "doc_a =
     \<lparr>doc_id = ''a'',
      doc_data = \<lparr>title = Some ''Groceries'', content = Some ''milk, eggs'',
                  updatedAt = Some 2, userId = Some ''u1'', other_fields = Map.empty\<rparr>\<rparr>"

definition doc_b :: doc_snapshot where
  "doc_b =
     \<lparr>doc_id = ''b'',
      doc_data = \<lparr>title = Some ''Plan'', content = Some ''roadmap'',
                  updatedAt = Some 1, userId = Some ''u1'', other_fields = Map.empty\<rparr>\<rparr>"

text \<open>A document whose data has a field named \<open>id\<close> and a field the application does not
  know.\<close>

definition doc_c :: doc_snapshot where
  "doc_c =
     \<lparr>doc_id = ''c'',
      doc_data = \<lparr>title = Some ''Imported'', content = None,
                  updatedAt = None, userId = Some ''u1'',
                  other_fields = [''id'' \<mapsto> JStr ''x'', ''pinned'' \<mapsto> JBool True]\<rparr>\<rparr>"

text \<open>A note whose title is the letter A followed by a capital sigma.\<close>

definition doc_sigma :: doc_snapshot where
  "doc_sigma =
     \<lparr>doc_id = ''s'',
      doc_data = \<lparr>title = Some (''A'' @ capital_sigma), content = Some [],
                  updatedAt = Some 3, userId = Some ''u1'', other_fields = Map.empty\<rparr>\<rparr>"

definition user1 :: user where
  "user1 = \<lparr>uid = ''u1'', email = Some ''u1@example.com''\<rparr>"

text \<open>User \<open>u1\<close> has signed in, the first snapshot has delivered the notes \<open>a\<close> and \<open>b\<close>,
  and note \<open>a\<close> is open in the editor.\<close>

definition example_state :: app_state where
  "example_state =
     run lower_sigma
       [AuthChanged (Some user1), SnapshotNext [doc_a, doc_b], OpenNote ''a''] initial_state"

definition permission_denied :: js_error where
  "permission_denied = JsError ''permission-denied'' ''Missing or insufficient permissions.''"

definition ctor_ok :: "string \<Rightarrow> js_error + client" where
  "ctor_ok k = Inr (GoogleGenerativeAI k)"

definition ctor_fail :: "string \<Rightarrow> js_error + client" where
  "ctor_fail k = Inl (JsError [] ''invalid key'')"

definition api_ok :: "client \<Rightarrow> string \<Rightarrow> string \<Rightarrow> model_outcome" where
  "api_ok c m p = Answered (''text for '' @ p)"

definition api_second :: "client \<Rightarrow> string \<Rightarrow> string \<Rightarrow> model_outcome" where
  "api_second c m p =
     (if m = ''gemini-2.5-flash-001'' then Answered (''text for '' @ p)
      else RequestFailed (JsError [] ''model overloaded''))"

definition api_down :: "client \<Rightarrow> string \<Rightarrow> string \<Rightarrow> model_outcome" where
  "api_down c m p = RequestFailed (JsError [] (''no answer from '' @ m))"

section \<open>Auxiliary facts\<close>

subsection \<open>Substrings\<close>

lemma js_includes_sublist: "js_includes x t = sublist t x"
  by (induction x) (simp_all add: sublist_Cons_right)

lemma js_includes_iff: "js_includes x t \<longleftrightarrow> (\<exists>p q. x = p @ t @ q)"
  by (simp add: js_includes_sublist sublist_def)

lemma js_includes_empty: "js_includes x []"
  by (induction x) simp_all

subsection \<open>The example state\<close>

lemmas model_defs =
  run_def initial_state_def onAuthStateChanged_def onSnapshot_next_def onSnapshot_error_def
  openNote_def showDashboard_def showView_def renderSidebar_def renderDashboard_def
  filteredNotes_def note_matches_def or_empty_def truthy_def note_id_def js_of_variable_def
  searchInput_def requestDelete_def closeModal_def confirmDelete_def confirmDelete_begin_def
  confirmDelete_resume_def handleInput_def clearTimeout_def updateSaveStatus_def
  autosave_callback_def autosave_settled_def timerFire_def inputEvent_def note_of_doc_def
  timer_inv_def lower_sigma_def js_includes_empty Let_def

lemmas example_defs = example_state_def doc_a_def doc_b_def user1_def

lemma example_state_fields:
  "currentUser example_state = Some user1"
  "currentNoteId example_state = Some ''a''"
  "noteToDeleteId example_state = None"
  "notesData example_state = [note_of_doc doc_a, note_of_doc doc_b]"
  "note_title example_state = Some ''Groceries''"
  "note_content example_state = Some ''milk, eggs''"
  "timers example_state = []"
  "timer_counter example_state = 0"
  "autosaveTimeout example_state = None"
  "calls example_state = []"
  "modal_delete example_state = Some True"
  "views example_state ViewEditor = Some False"
  "views example_state ViewDashboard = Some True"
  "views example_state ViewLogin = Some True"
  by (simp_all add: model_defs example_defs)

lemma example_note_ids:
  "note_id (note_of_doc doc_a) = Some (JStr ''a'')"
  "note_id (note_of_doc doc_b) = Some (JStr ''b'')"
  by (simp_all add: note_id_def note_of_doc_def doc_a_def doc_b_def)

subsection \<open>The dashboard filter\<close>

text \<open>Whatever the engine's \<open>toLowerCase\<close>, the list the dashboard shows is a sublist of the
  cache in the order of the cache, rendering leaves the cache as it is, and with an
  engine that lower-cases the empty string to itself the empty term shows every note.\<close>

lemma filteredNotes_subseq: "subseq (filteredNotes lower t cache) cache"
  by (simp add: filteredNotes_def)

lemma filteredNotes_empty_term: "lower [] = [] \<Longrightarrow> filteredNotes lower [] cache = cache"
  by (simp add: filteredNotes_def note_matches_def js_includes_empty)

lemma notesData_renderDashboard: "notesData (renderDashboard lower s) = notesData s"
  by (simp add: renderDashboard_def Let_def split: option.splits)

subsection \<open>The snapshot handler\<close>

lemma notesData_onSnapshot_next:
  "notesData (onSnapshot_next lower docs s) = map note_of_doc docs"
  by (simp add: onSnapshot_next_def renderSidebar_def renderDashboard_def Let_def
      split: option.splits)

subsection \<open>Deletion\<close>

text \<open>When the delete call settles before any other handler runs, a successful deletion
  of the open note ends at the dashboard and one of another note leaves the open note
  open.\<close>

lemma confirmDelete_settled_at_once:
  assumes "noteToDeleteId s = Some d" and "d \<noteq> []" and "currentUser s = Some u"
  shows "calls (confirmDelete Fulfilled s) = calls s @ [DeleteDoc (uid u) d] \<and>
         noteToDeleteId (confirmDelete Fulfilled s) = None \<and>
         modal_delete (confirmDelete Fulfilled s) = map_option (\<lambda>_. True) (modal_delete s) \<and>
         (if currentNoteId s = Some d
          then currentNoteId (confirmDelete Fulfilled s) = None \<and>
               views (confirmDelete Fulfilled s) ViewDashboard =
                 map_option (\<lambda>_. False) (views s ViewDashboard) \<and>
               views (confirmDelete Fulfilled s) ViewEditor =
                 map_option (\<lambda>_. True) (views s ViewEditor)
          else currentNoteId (confirmDelete Fulfilled s) = currentNoteId s \<and>
               views (confirmDelete Fulfilled s) = views s)"
  using assms
  by (simp add: confirmDelete_def confirmDelete_begin_def confirmDelete_resume_def closeModal_def
      showDashboard_def showView_def Let_def split: option.splits)

subsection \<open>Timeouts\<close>

lemma fire_none: "timers s = [] \<Longrightarrow> fold timerFire hs s = s"
  by (induction hs) (simp_all add: timerFire_def)

lemma timers_autosave_callback: "timers (autosave_callback s) = timers s"
  by (simp add: autosave_callback_def split: option.splits)

lemma fire_single:
  "timers s = [h] \<Longrightarrow>
   fold timerFire hs s = (if h \<in> set hs then autosave_callback (s\<lparr>timers := []\<rparr>) else s)"
proof (induction hs arbitrary: s)
  case Nil
  then show ?case by simp
next
  case (Cons a hs)
  show ?case
  proof (cases "a = h")
    case True
    have st: "timerFire a s = autosave_callback (s\<lparr>timers := []\<rparr>)"
      using Cons.prems True by (simp add: timerFire_def)
    have "timers (timerFire a s) = []"
      unfolding st by (simp add: timers_autosave_callback)
    then have "fold timerFire hs (timerFire a s) = timerFire a s"
      by (rule fire_none)
    then show ?thesis using True st by simp
  next
    case False
    then have "timerFire a s = s" using Cons.prems by (simp add: timerFire_def)
    then show ?thesis using Cons False by simp
  qed
qed






text \<open>Every handler but \<open>handleInput\<close> and the firing of a timeout leaves the timeouts alone.\<close>

lemma frame_showView:
  "autosaveTimeout (showView v s) = autosaveTimeout s \<and> timers (showView v s) = timers s \<and>
   timer_counter (showView v s) = timer_counter s"
  by (simp add: showView_def Let_def split: option.splits)


lemma frame_renderSidebar:
  "autosaveTimeout (renderSidebar s) = autosaveTimeout s \<and>
   timers (renderSidebar s) = timers s \<and>
   timer_counter (renderSidebar s) = timer_counter s"
  by (simp add: renderSidebar_def split: option.splits)

lemma frame_showDashboard:
  "autosaveTimeout (showDashboard s) = autosaveTimeout s \<and>
   timers (showDashboard s) = timers s \<and>
   timer_counter (showDashboard s) = timer_counter s"
  by (simp add: showDashboard_def frame_showView)

lemma frame_openNote:
  "autosaveTimeout (openNote noteId s) = autosaveTimeout s \<and>
   timers (openNote noteId s) = timers s \<and>
   timer_counter (openNote noteId s) = timer_counter s"
  by (simp add: openNote_def Let_def frame_showDashboard frame_renderSidebar frame_showView
      split: option.splits)











subsection \<open>Opening a note\<close>

text \<open>Opening a note that is in the cache overwrites the editor fields: the state after it
  is the same whatever text the fields held before.\<close>

lemma openNote_forgets_editor_text:
  assumes "find (\<lambda>n. note_id n = Some (JStr b)) (notesData s) = Some nb"
  shows "openNote b (s\<lparr>note_title := map_option (\<lambda>_. t) (note_title s),
                        note_content := map_option (\<lambda>_. c) (note_content s)\<rparr>) = openNote b s"
  using assms
  by (simp add: openNote_def showView_def renderSidebar_def Let_def option.map_comp comp_def
      split: option.splits)

subsection \<open>The loop over the models\<close>

lemma try_models_result:
  "fst (try_models call ms le tried lg) =
     (case find (\<lambda>m. \<not> isl (outcome_result (call m))) ms of
        Some m \<Rightarrow> outcome_result (call m)
      | None \<Rightarrow>
          Inl (JsError []
             (''All models failed. Last error: '' @
                (case (if ms = [] then le else Some (projl (outcome_result (call (last ms))))) of
                   Some e \<Rightarrow> message e
                 | None \<Rightarrow> ''Unknown error''))))"
proof (induction ms arbitrary: le tried lg)
  case Nil
  then show ?case by simp
next
  case (Cons m ms)
  show ?case
  proof (cases "call m")
    case (RequestFailed e)
    then show ?thesis
      using Cons.IH [of "Some e" "tried @ [m]" lg]
      by (cases "find (\<lambda>m. \<not> isl (outcome_result (call m))) ms") auto
  next
    case (TextFailed e)
    then show ?thesis
      using Cons.IH [of "Some e" "tried @ [m]" "lg @ [success_line m]"]
      by (cases "find (\<lambda>m. \<not> isl (outcome_result (call m))) ms") auto
  next
    case (Answered res)
    then show ?thesis by simp
  qed
qed

lemma try_models_tried:
  "fst (snd (try_models call ms le tried lg)) =
     (case find (\<lambda>m. \<not> isl (outcome_result (call m))) ms of
        Some m \<Rightarrow> tried @ takeWhile (\<lambda>m. isl (outcome_result (call m))) ms @ [m]
      | None \<Rightarrow> tried @ ms)"
proof (induction ms arbitrary: le tried lg)
  case Nil
  then show ?case by simp
next
  case (Cons m ms)
  show ?case
  proof (cases "call m")
    case (RequestFailed e)
    then show ?thesis
      using Cons.IH [of "Some e" "tried @ [m]" lg]
      by (cases "find (\<lambda>m. \<not> isl (outcome_result (call m))) ms") auto
  next
    case (TextFailed e)
    then show ?thesis
      using Cons.IH [of "Some e" "tried @ [m]" "lg @ [success_line m]"]
      by (cases "find (\<lambda>m. \<not> isl (outcome_result (call m))) ms") auto
  next
    case (Answered res)
    then show ?thesis by simp
  qed
qed

lemma js_trim_example: "js_trim ''Your API Key'' = ''Your API Key''"
  by code_simp

lemma initialize_example:
  "genAI (initialize ctor_ok None gemini_initial) = Some (GoogleGenerativeAI ''Your API Key'')"
  by (simp add: initialize_def gemini_initial_def js_or_def truthy_def js_trim_example
      ctor_ok_def Let_def)

section \<open>The note cache\<close>

text \<open>
  C1. For every sequence of snapshot deliveries, the cache right after the delivery of a
  snapshot is exactly the ordered contents of that snapshot: whatever handlers ran before
  (earlier snapshots among them) and whatever the state was, the cache has as many
  entries as the snapshot has documents and, position by position, the entry has the
  title, content, timestamp and owner of the document's data and every other field of
  the data, with the property \<open>id\<close> equal to the data's field \<open>id\<close> when it has one and to
  the document's id otherwise, and nothing else. Nothing of the earlier cache is kept and
  nothing is merged.
\<close>

theorem snapshot_full_replace:
  "(let cache = notesData (run lower (evs @ [SnapshotNext docs]) s) in
    length cache = length docs \<and>
    (\<forall>i < length docs.
       title (cache ! i) = title (doc_data (docs ! i)) \<and>
       content (cache ! i) = content (doc_data (docs ! i)) \<and>
       updatedAt (cache ! i) = updatedAt (doc_data (docs ! i)) \<and>
       userId (cache ! i) = userId (doc_data (docs ! i)) \<and>
       (\<forall>k. other_fields (cache ! i) k =
            (case other_fields (doc_data (docs ! i)) k of
               Some v \<Rightarrow> Some v
             | None \<Rightarrow> if k = ''id'' then Some (JStr (doc_id (docs ! i))) else None))))"
proof -
  have c: "notesData (run lower (evs @ [SnapshotNext docs]) s) = map note_of_doc docs"
    by (simp add: run_def notesData_onSnapshot_next)
  show ?thesis
    unfolding Let_def c
    by (simp add: note_of_doc_def map_add_def split: option.splits)
qed

theorem snapshot_full_replace_witness:
  "length (notesData (run lower_sigma
      ([SnapshotNext [doc_a, doc_b], OpenNote ''a''] @ [SnapshotNext [doc_b, doc_c]])
      initial_state)) = 2 \<and>
   title (notesData (run lower_sigma
      ([SnapshotNext [doc_a, doc_b], OpenNote ''a''] @ [SnapshotNext [doc_b, doc_c]])
      initial_state) ! 0) = Some ''Plan'' \<and>
   other_fields (notesData (run lower_sigma
      ([SnapshotNext [doc_a, doc_b], OpenNote ''a''] @ [SnapshotNext [doc_b, doc_c]])
      initial_state) ! 0) ''id'' = Some (JStr ''b'') \<and>
   title (notesData (run lower_sigma
      ([SnapshotNext [doc_a, doc_b], OpenNote ''a''] @ [SnapshotNext [doc_b, doc_c]])
      initial_state) ! 1) = Some ''Imported'' \<and>
   other_fields (notesData (run lower_sigma
      ([SnapshotNext [doc_a, doc_b], OpenNote ''a''] @ [SnapshotNext [doc_b, doc_c]])
      initial_state) ! 1) ''id'' = Some (JStr ''x'') \<and>
   other_fields (notesData (run lower_sigma
      ([SnapshotNext [doc_a, doc_b], OpenNote ''a''] @ [SnapshotNext [doc_b, doc_c]])
      initial_state) ! 1) ''pinned'' = Some (JBool True)"
proof -
  let ?cache = "notesData (run lower_sigma
      ([SnapshotNext [doc_a, doc_b], OpenNote ''a''] @ [SnapshotNext [doc_b, doc_c]])
      initial_state)"
  note t = snapshot_full_replace [of lower_sigma "[SnapshotNext [doc_a, doc_b], OpenNote ''a'']"
      "[doc_b, doc_c]" initial_state, unfolded Let_def]
  from t have l: "length ?cache = 2" by simp
  from t have e: "\<forall>i < 2.
       title (?cache ! i) = title (doc_data ([doc_b, doc_c] ! i)) \<and>
       (\<forall>k. other_fields (?cache ! i) k =
            (case other_fields (doc_data ([doc_b, doc_c] ! i)) k of
               Some v \<Rightarrow> Some v
             | None \<Rightarrow> if k = ''id'' then Some (JStr (doc_id ([doc_b, doc_c] ! i))) else None))"
    by simp
  have z: "(0::nat) < 2" and o: "(1::nat) < 2" by simp_all
  from e z have e0: "title (?cache ! 0) = Some ''Plan''"
    "other_fields (?cache ! 0) ''id'' = Some (JStr ''b'')"
    by (simp_all add: doc_b_def)
  from e o have e1: "title (?cache ! 1) = Some ''Imported''"
    "other_fields (?cache ! 1) ''id'' = Some (JStr ''x'')"
    "other_fields (?cache ! 1) ''pinned'' = Some (JBool True)"
    by (simp_all add: doc_c_def)
  from l e0 e1 show ?thesis by simp
qed

text \<open>
  C5, as stated, fails: the handler of the sign-out event empties the cache but does not
  clear the open note's id. Signing out while note \<open>a\<close> is open leaves \<open>currentNoteId\<close> at
  \<open>a\<close>.
\<close>

theorem sign_out_keeps_currentNoteId:
  "currentNoteId (onAuthStateChanged None example_state) = Some ''a''"
  by (simp add: onAuthStateChanged_def showView_def Let_def example_state_fields
      split: option.splits)

text \<open>
  C5, amended. For every prior state, on a sign-out event the note cache becomes empty,
  no identity is authenticated any more and the login view is shown. The handler leaves
  the open note's id, the pending-delete id and a pending autosave timeout as they were;
  with no identity authenticated, neither that timeout, when it fires, nor a confirmed
  deletion issues a write call (the confirmation returns at its guard).
\<close>

theorem sign_out_clears_cache:
  "notesData (onAuthStateChanged None s) = [] \<and>
   currentUser (onAuthStateChanged None s) = None \<and>
   views (onAuthStateChanged None s) ViewLogin = map_option (\<lambda>_. False) (views s ViewLogin) \<and>
   currentNoteId (onAuthStateChanged None s) = currentNoteId s \<and>
   noteToDeleteId (onAuthStateChanged None s) = noteToDeleteId s \<and>
   timers (onAuthStateChanged None s) = timers s \<and>
   calls (timerFire h (onAuthStateChanged None s)) = calls s \<and>
   calls (confirmDelete r (onAuthStateChanged None s)) = calls s \<and>
   confirmDelete_begin (onAuthStateChanged None s) = None"
  by (simp add: onAuthStateChanged_def showView_def Let_def timerFire_def autosave_callback_def
      confirmDelete_def confirmDelete_begin_def
      split: option.splits)

theorem sign_out_clears_cache_witness:
  "notesData (onAuthStateChanged None example_state) = [] \<and>
   currentUser (onAuthStateChanged None example_state) = None \<and>
   views (onAuthStateChanged None example_state) ViewLogin = Some False \<and>
   calls (timerFire 1 (onAuthStateChanged None example_state)) = []"
  using sign_out_clears_cache [of example_state 1 Fulfilled]
  by (simp add: example_state_fields)

text \<open>
  C8, as stated, fails: the error callback of the subscription only logs. After a
  permission failure, which the specification counts as fatal, the cache still holds the
  two notes it held before.
\<close>

theorem fatal_error_keeps_cache:
  "spec_fatal permission_denied \<and>
   notesData (onSnapshot_error permission_denied example_state) =
     [note_of_doc doc_a, note_of_doc doc_b]"
  by (simp add: spec_fatal_def permission_denied_def onSnapshot_error_def example_state_fields)

text \<open>
  C8, amended. For every subscription error event, fatal or not, the error is logged and
  the handler returns; the note cache is left in its last-known state. This holds for any
  number of errors in a row: the cache is unchanged and the console has one entry more for
  each error, in order.
\<close>

theorem subscription_error_keeps_cache:
  "notesData (fold onSnapshot_error es s) = notesData s \<and>
   console (fold onSnapshot_error es s) =
     console s @ map (\<lambda>e. LogError ''Firestore Listen Error:'' (Some e)) es"
  by (induction es arbitrary: s) (simp_all add: onSnapshot_error_def)

theorem subscription_error_keeps_cache_witness:
  "notesData (fold onSnapshot_error [permission_denied] example_state) =
     [note_of_doc doc_a, note_of_doc doc_b] \<and>
   console (fold onSnapshot_error [permission_denied] initial_state) =
     [LogError ''Firestore Listen Error:'' (Some permission_denied)]"
  using subscription_error_keeps_cache [of "[permission_denied]" example_state]
    subscription_error_keeps_cache [of "[permission_denied]" initial_state]
  by (simp add: example_state_fields initial_state_def)

section \<open>The dashboard filter\<close>

text \<open>
  C4 fails on the code. The filter lower-cases the title, the content and the term with
  the engine's \<open>toLowerCase\<close> and searches the lower-cased term in the lower-cased text.
  Lower-casing a capital sigma depends on its place in the word: at the end of the title
  A-sigma it becomes the final small sigma, alone as the search term it becomes the
  small sigma. So the title contains the term, letter for letter, and yet the filter
  drops the note: the dashboard shows nothing for a search that must show it.
\<close>

theorem filter_misses_final_sigma:
  "or_empty (title (note_of_doc doc_sigma)) = ''A'' @ capital_sigma \<and>
   sublist capital_sigma (''A'' @ capital_sigma) \<and>
   lower_sigma (''A'' @ capital_sigma) = ''a'' @ final_sigma \<and>
   lower_sigma capital_sigma = small_sigma \<and>
   filteredNotes lower_sigma capital_sigma [note_of_doc doc_sigma] = [] \<and>
   notesData (run lower_sigma [SnapshotNext [doc_sigma], SearchInput capital_sigma]
      example_state) = [note_of_doc doc_sigma] \<and>
   notes_grid (run lower_sigma [SnapshotNext [doc_sigma], SearchInput capital_sigma]
      example_state) = Some []"
proof -
  have t: "or_empty (title (note_of_doc doc_sigma)) = ''A'' @ capital_sigma"
    by (simp add: or_empty_def note_of_doc_def doc_sigma_def)
  have s: "sublist capital_sigma (''A'' @ capital_sigma)"
    unfolding sublist_def by (intro exI [of _ "''A''"] exI [of _ "[]"]) simp
  have l1: "lower_sigma (''A'' @ capital_sigma) = ''a'' @ final_sigma"
    by code_simp
  have l2: "lower_sigma capital_sigma = small_sigma"
    by code_simp
  have l3: "lower_sigma [] = []"
    by (simp add: lower_sigma_def)
  have i: "\<not> js_includes (''a'' @ final_sigma) small_sigma" "\<not> js_includes [] small_sigma"
    by code_simp+
  have tt: "lower_sigma (or_empty (title (note_of_doc doc_sigma))) = ''a'' @ final_sigma"
    by (simp only: t l1)
  have cc: "lower_sigma (or_empty (content (note_of_doc doc_sigma))) = []"
    by (simp add: or_empty_def note_of_doc_def doc_sigma_def l3)
  have m: "\<not> note_matches lower_sigma capital_sigma (note_of_doc doc_sigma)"
    unfolding note_matches_def Let_def tt cc l2 using i by blast
  have f: "filteredNotes lower_sigma capital_sigma [note_of_doc doc_sigma] = []"
    using m by (simp add: filteredNotes_def)
  have g: "notes_grid example_state \<noteq> None"
    by (simp add: model_defs example_defs)
  have n: "notesData (run lower_sigma [SnapshotNext [doc_sigma], SearchInput capital_sigma]
      example_state) = [note_of_doc doc_sigma]"
    by (simp add: run_def searchInput_def notesData_renderDashboard notesData_onSnapshot_next)
  have r: "notes_grid (run lower_sigma [SnapshotNext [doc_sigma], SearchInput capital_sigma]
      example_state) = Some []"
    using f g
    by (auto simp add: run_def searchInput_def onSnapshot_next_def renderDashboard_def
        renderSidebar_def Let_def split: option.splits)
  from t s l1 l2 f n r show ?thesis by simp
qed

section \<open>The editor session\<close>

text \<open>
  C6. Opening a note id that is not in the cache leaves the session at the dashboard: no
  note is open, the dashboard container (when the page has it) is visible and the editor
  container is hidden. Opening an id that is in the cache makes it the open note, in edit
  mode, with the editor container visible and the dashboard container hidden.
\<close>

theorem open_note_transition:
  "(case find (\<lambda>n. note_id n = Some (JStr noteId)) (notesData s) of
      None \<Rightarrow>
        currentNoteId (openNote noteId s) = None \<and>
        views (openNote noteId s) ViewDashboard =
          map_option (\<lambda>_. False) (views s ViewDashboard) \<and>
        views (openNote noteId s) ViewEditor = map_option (\<lambda>_. True) (views s ViewEditor)
    | Some n \<Rightarrow>
        currentNoteId (openNote noteId s) = Some noteId \<and>
        isEditMode (openNote noteId s) \<and>
        views (openNote noteId s) ViewEditor = map_option (\<lambda>_. False) (views s ViewEditor) \<and>
        views (openNote noteId s) ViewDashboard =
          map_option (\<lambda>_. True) (views s ViewDashboard))"
  by (simp add: openNote_def showDashboard_def showView_def renderSidebar_def Let_def
      split: option.splits)

theorem open_note_transition_witness:
  "currentNoteId (openNote ''gone'' example_state) = None \<and>
   views (openNote ''gone'' example_state) ViewDashboard = Some False \<and>
   views (openNote ''gone'' example_state) ViewEditor = Some True \<and>
   currentNoteId (openNote ''b'' example_state) = Some ''b'' \<and>
   views (openNote ''b'' example_state) ViewEditor = Some False"
  using open_note_transition [of "''gone''" example_state]
    open_note_transition [of "''b''" example_state]
  by (simp add: example_state_fields example_note_ids)

text \<open>
  C7 fails on the code. The part of \<open>confirmDelete\<close> after \<open>await\<close> compares \<open>currentNoteId\<close>
  with \<open>noteToDeleteId\<close> as they are when the delete call settles, not as they were when
  it was issued. The modal stays open while the call is in flight; when the user cancels
  it then, \<open>noteToDeleteId\<close> is \<open>null\<close> at the comparison. Note \<open>a\<close> is open, its deletion is
  requested and confirmed, the modal is cancelled, the call succeeds: the delete call for
  \<open>a\<close> has been issued, and yet \<open>a\<close> is still the open note and the editor is still shown,
  where the source's own comment says "If deleting current note, navigate away".
\<close>

theorem delete_cancelled_in_flight:
  "calls (run lower_sigma
      [RequestDelete ''a'', ConfirmDeleteBegin, CloseModal, ConfirmDeleteSettled Fulfilled]
      example_state) = [DeleteDoc ''u1'' ''a''] \<and>
   currentNoteId (run lower_sigma
      [RequestDelete ''a'', ConfirmDeleteBegin, CloseModal, ConfirmDeleteSettled Fulfilled]
      example_state) = Some ''a'' \<and>
   views (run lower_sigma
      [RequestDelete ''a'', ConfirmDeleteBegin, CloseModal, ConfirmDeleteSettled Fulfilled]
      example_state) ViewEditor = Some False \<and>
   views (run lower_sigma
      [RequestDelete ''a'', ConfirmDeleteBegin, CloseModal, ConfirmDeleteSettled Fulfilled]
      example_state) ViewDashboard = Some True"
  by (simp add: run_def requestDelete_def confirmDelete_begin_def closeModal_def
      confirmDelete_resume_def example_state_fields user1_def)

text \<open>
  C10. Confirming a deletion when none is pending or nobody is authenticated changes
  nothing at all: no delete call is issued. When the delete call has been issued and
  fails, the session is as before: the pending id is kept, the modal stays as it is, the
  open note and the views are unchanged; the error is logged. The guard returns in
  exactly those states, and the failure changes nothing but the console in whatever state
  the call settles.
\<close>

theorem confirm_delete_noop_or_failed:
  "(\<not> truthy (noteToDeleteId s) \<or> currentUser s = None \<longrightarrow> confirmDelete r s = s) \<and>
   (truthy (noteToDeleteId s) \<and> currentUser s \<noteq> None \<longrightarrow>
      noteToDeleteId (confirmDelete (Rejected e) s) = noteToDeleteId s \<and>
      modal_delete (confirmDelete (Rejected e) s) = modal_delete s \<and>
      currentNoteId (confirmDelete (Rejected e) s) = currentNoteId s \<and>
      views (confirmDelete (Rejected e) s) = views s \<and>
      notesData (confirmDelete (Rejected e) s) = notesData s \<and>
      console (confirmDelete (Rejected e) s) =
        console s @ [LogError ''Error deleting note:'' (Some e)]) \<and>
   (confirmDelete_begin s = None \<longleftrightarrow> \<not> truthy (noteToDeleteId s) \<or> currentUser s = None) \<and>
   confirmDelete_resume (Rejected e) s' =
     s'\<lparr>console := console s' @ [LogError ''Error deleting note:'' (Some e)]\<rparr>"
  by (auto simp add: confirmDelete_def confirmDelete_begin_def confirmDelete_resume_def truthy_def
      split: option.splits)

theorem confirm_delete_noop_or_failed_witness:
  "confirmDelete Fulfilled example_state = example_state \<and>
   noteToDeleteId (confirmDelete (Rejected permission_denied) (requestDelete ''a'' example_state)) =
     Some ''a'' \<and>
   modal_delete (confirmDelete (Rejected permission_denied) (requestDelete ''a'' example_state)) =
     Some False \<and>
   currentNoteId (confirmDelete (Rejected permission_denied) (requestDelete ''a'' example_state)) =
     Some ''a''"
proof -
  have a: "noteToDeleteId (requestDelete ''a'' example_state) = Some ''a''"
    "currentUser (requestDelete ''a'' example_state) = Some user1"
    "currentNoteId (requestDelete ''a'' example_state) = Some ''a''"
    "modal_delete (requestDelete ''a'' example_state) = Some False"
    by (simp_all add: requestDelete_def example_state_fields)
  show ?thesis
    using confirm_delete_noop_or_failed [of example_state Fulfilled permission_denied]
      confirm_delete_noop_or_failed [of "requestDelete ''a'' example_state" Fulfilled
        permission_denied]
    by (simp add: a example_state_fields truthy_def)
qed

section \<open>The autosave coordinator\<close>



text \<open>
  C2, as stated, fails: the coordinator neither fixes the target note when the edit is
  scheduled nor checks it when the timeout fires. An edit to the content of note \<open>a\<close>,
  then opening note \<open>b\<close>, then the timeout: the one update call that results is directed
  at \<open>b\<close> (a fixed target would be \<open>a\<close>, a check would issue no call). It carries the title
  and content of \<open>b\<close> from the cache, which \<open>openNote\<close> has put into the editor fields.
\<close>

theorem stale_timer_targets_new_note:
  "calls (run lower_sigma [Input FieldContent ''edited A'', OpenNote ''b'', TimerFire 1]
      example_state) =
     [UpdateDoc ''u1'' ''b'' ''Plan'' ''roadmap'']"
  by (simp add: model_defs example_defs)

text \<open>
  C2, amended. Take any state in which a debounce timeout is pending (an edit has been
  scheduled, whatever text the editor fields hold) on a page that has both editor fields,
  with an identity authenticated, and let a note \<open>b\<close> that is in the cache be opened before
  the timeout fires. Then the update call that results when the timeout fires is directed
  at \<open>b\<close> and carries the title and content of \<open>b\<close> as the cache has them, loaded into the
  editor fields by \<open>openNote\<close>: it never carries the text edited before \<open>b\<close> was opened.
  More generally, had the editor fields held any other text before \<open>b\<close> was opened, every
  execution that continues from there would reach the same state, and so issue the same
  calls. The target id is read when the timeout fires; it is neither fixed at schedule
  time nor checked against the note the edit was made in.
\<close>

theorem open_other_note_before_fire:
  assumes "timers s = [h]"
    and "note_title s = Some tA" and "note_content s = Some cA"
    and "currentUser s = Some u"
    and "find (\<lambda>n. note_id n = Some (JStr b)) (notesData s) = Some nb" and "b \<noteq> []"
  shows "calls (fold timerFire hs (openNote b s)) =
     calls s @
     (if h \<in> set hs then [UpdateDoc (uid u) b (or_empty (title nb)) (or_empty (content nb))]
      else []) \<and>
     run lower evs (openNote b (s\<lparr>note_title := map_option (\<lambda>_. t) (note_title s),
                                   note_content := map_option (\<lambda>_. c) (note_content s)\<rparr>)) =
     run lower evs (openNote b s)"
proof -
  have o: "timers (openNote b s) = [h]"
    using assms(1) by (simp add: frame_openNote)
  have f: "fold timerFire hs (openNote b s) =
      (if h \<in> set hs then autosave_callback ((openNote b s)\<lparr>timers := []\<rparr>) else openNote b s)"
    by (rule fire_single [OF o])
  have c: "calls (openNote b s) = calls s"
    using assms by (simp add: openNote_def renderSidebar_def showView_def Let_def
        split: option.splits)
  have a: "calls (autosave_callback ((openNote b s)\<lparr>timers := []\<rparr>)) =
      calls s @ [UpdateDoc (uid u) b (or_empty (title nb)) (or_empty (content nb))]"
    using assms by (simp add: autosave_callback_def openNote_def renderSidebar_def showView_def
        Let_def or_empty_def split: option.splits)
  have n: "openNote b (s\<lparr>note_title := map_option (\<lambda>_. t) (note_title s),
                           note_content := map_option (\<lambda>_. c) (note_content s)\<rparr>) =
      openNote b s"
    by (rule openNote_forgets_editor_text [OF assms(5)])
  show ?thesis using f c a n by simp
qed

theorem open_other_note_before_fire_witness:
  "calls (fold timerFire [1] (openNote ''b'' (inputEvent FieldContent ''edited A'' example_state))) =
     [UpdateDoc ''u1'' ''b'' ''Plan'' ''roadmap'']"
proof -
  let ?s = "inputEvent FieldContent ''edited A'' example_state"
  have f: "timers ?s = [1]" "note_title ?s = Some ''Groceries''"
    "note_content ?s = Some ''edited A''" "currentUser ?s = Some user1"
    "find (\<lambda>n. note_id n = Some (JStr ''b'')) (notesData ?s) = Some (note_of_doc doc_b)"
    "calls ?s = []"
    by (simp_all add: inputEvent_def handleInput_def updateSaveStatus_def clearTimeout_def
        Let_def example_state_fields example_note_ids)
  have b: "''b'' \<noteq> ([]::string)" by simp
  show ?thesis
    using open_other_note_before_fire [OF f(1) f(2) f(3) f(4) f(5) b, of "[1]"] f(6)
    by (simp add: user1_def note_of_doc_def doc_b_def or_empty_def)
qed

section \<open>The generation call\<close>

text \<open>
  C9, as stated, fails: the call also reports a failure when the client could not be
  constructed, and then no model is tried. With a constructor that throws and a service
  every model of which would answer, the call fails without a single request.
\<close>

theorem generate_not_initialized:
  "isl (fst (generateContent ctor_fail api_ok ''hi'' gemini_initial)) \<and>
   fst (snd (generateContent ctor_fail api_ok ''hi'' gemini_initial)) = [] \<and>
   \<not> isl (outcome_result (api_ok (GoogleGenerativeAI ''Your API Key'') ''gemini-2.5-flash'' ''hi'')) \<and>
   \<not> isl (outcome_result
      (api_ok (GoogleGenerativeAI ''Your API Key'') ''gemini-2.5-flash-001'' ''hi''))"
  by (simp add: generateContent_def initialize_def gemini_initial_def js_or_def truthy_def
      js_trim_example ctor_fail_def api_ok_def Let_def)

text \<open>
  C9, amended. For every prompt: when no client is at hand after initialisation, the call
  fails at once with the message that the client is not initialised, and requests no
  model. Otherwise it requests the configured models one after the other, in order, and
  stops at the first that answers, whose text it returns; it reports a failure if and
  only if every model of the list fails, and the message of that failure ends with the
  message of the last model's error. (A model fails when its request fails or when
  reading the text of its response throws.)
\<close>

theorem generate_fallback:
  "(case genAI (initialize ctor None g) of
      None \<Rightarrow>
        fst (generateContent ctor api prompt g) =
          Inl (JsError [] ''Gemini Client not initialized. Please check your API Key.'') \<and>
        fst (snd (generateContent ctor api prompt g)) = []
    | Some c \<Rightarrow>
        (isl (fst (generateContent ctor api prompt g)) \<longleftrightarrow>
           (\<forall>m \<in> set modelsToTry. isl (outcome_result (api c m prompt)))) \<and>
        (case find (\<lambda>m. \<not> isl (outcome_result (api c m prompt))) modelsToTry of
           Some m \<Rightarrow>
             fst (generateContent ctor api prompt g) = outcome_result (api c m prompt) \<and>
             fst (snd (generateContent ctor api prompt g)) =
               takeWhile (\<lambda>m. isl (outcome_result (api c m prompt))) modelsToTry @ [m]
         | None \<Rightarrow>
             fst (generateContent ctor api prompt g) =
               Inl (JsError []
                 (''All models failed. Last error: '' @
                    message (projl (outcome_result (api c (last modelsToTry) prompt))))) \<and>
             fst (snd (generateContent ctor api prompt g)) = modelsToTry))"
proof (cases "genAI (initialize ctor None g)")
  case None
  then show ?thesis by (simp add: generateContent_def Let_def)
next
  case (Some c)
  let ?call = "\<lambda>m. api c m prompt"
  let ?t = "try_models ?call modelsToTry None [] []"
  have ne: "modelsToTry \<noteq> []" by (simp add: modelsToTry_def)
  have r: "fst (generateContent ctor api prompt g) = fst ?t"
    using Some by (simp add: generateContent_def Let_def split: prod.splits)
  have d: "fst (snd (generateContent ctor api prompt g)) = fst (snd ?t)"
    using Some by (simp add: generateContent_def Let_def split: prod.splits)
  show ?thesis
  proof (cases "find (\<lambda>m. \<not> isl (outcome_result (?call m))) modelsToTry")
    case None
    then have all: "\<forall>m \<in> set modelsToTry. isl (outcome_result (?call m))"
      by (simp add: find_None_iff)
    have "fst ?t = Inl (JsError [] (''All models failed. Last error: '' @
            message (projl (outcome_result (?call (last modelsToTry))))))"
      using None ne by (simp add: try_models_result)
    moreover have "fst (snd ?t) = modelsToTry"
      using None by (simp add: try_models_tried)
    ultimately show ?thesis
      using Some None all r d by simp
  next
    case (Some m)
    then have m: "m \<in> set modelsToTry" "\<not> isl (outcome_result (?call m))"
      by (auto simp add: find_Some_iff)
    then have ex: "\<exists>m \<in> set modelsToTry. \<not> isl (outcome_result (?call m))"
      by (intro bexI [of _ m]) simp_all
    have "fst ?t = outcome_result (?call m)"
      using Some by (simp add: try_models_result)
    moreover have "fst (snd ?t) =
        takeWhile (\<lambda>m. isl (outcome_result (?call m))) modelsToTry @ [m]"
      using Some by (simp add: try_models_tried)
    ultimately show ?thesis
      using \<open>genAI (initialize ctor None g) = Some c\<close> Some m ex r d by simp
  qed
qed

theorem generate_fallback_witness:
  "fst (generateContent ctor_ok api_second ''hi'' gemini_initial) = Inr ''text for hi'' \<and>
   fst (snd (generateContent ctor_ok api_second ''hi'' gemini_initial)) =
     [''gemini-2.5-flash'', ''gemini-2.5-flash-001''] \<and>
   fst (generateContent ctor_ok api_down ''hi'' gemini_initial) =
     Inl (JsError [] ''All models failed. Last error: no answer from gemini-2.5-flash-001'')"
  using generate_fallback [where ctor = ctor_ok and g = gemini_initial and api = api_second
        and prompt = "''hi''"]
    generate_fallback [where ctor = ctor_ok and g = gemini_initial and api = api_down
        and prompt = "''hi''"]
  by (simp add: initialize_example modelsToTry_def api_second_def api_down_def)

end
